theory Spec2Isabelle
  imports Complex_Main "HOL-Library.Word"
begin

unbundle bit_operations_syntax

section \<open>JavaScript numbers and Node buffers\<close>

text \<open>
  The sources are TypeScript running on Node. A \<open>Buffer\<close> is a list of bytes. Integer
  valued JavaScript numbers are \<open>int\<close>. The bitwise operators of JavaScript first
  convert both operands to a signed 32-bit integer (ToInt32) and return a signed 32-bit
  integer; the shift operators use the shift count modulo 32. That conversion is written
  out here, since \<open>RTPBridge.sendRTPPacket\<close> depends on it.
\<close>

type_synonym byte = "8 word"

datatype error = ERR_OUT_OF_RANGE | ERR_SOCKET_DGRAM_NOT_RUNNING | ERR_SOCKET_BAD_PORT

definition js_and :: "int \<Rightarrow> int \<Rightarrow> int" where
  "js_and a b = sint ((word_of_int a :: 32 word) AND word_of_int b)"

definition js_or :: "int \<Rightarrow> int \<Rightarrow> int" where
  "js_or a b = sint ((word_of_int a :: 32 word) OR word_of_int b)"

definition js_not :: "int \<Rightarrow> int" where
  "js_not a = sint (NOT (word_of_int a :: 32 word))"

definition js_shl :: "int \<Rightarrow> int \<Rightarrow> int" where
  "js_shl a n = sint (push_bit (nat (n mod 32)) (word_of_int a :: 32 word))"

definition js_sar :: "int \<Rightarrow> int \<Rightarrow> int" where
  "js_sar a n = sint (signed_drop_bit (nat (n mod 32)) (word_of_int a :: 32 word))"

text \<open>Storing a number into an \<open>Int16Array\<close> keeps its low 16 bits, read as signed.\<close>

definition toInt16 :: "int \<Rightarrow> int" where
  "toInt16 x = sint (word_of_int x :: 16 word)"

text \<open>
  \<open>buf.readInt16LE(offset)\<close>, \<open>buf.writeInt16LE(value, offset)\<close>,
  \<open>buf.writeUInt16BE(value, offset)\<close> and \<open>buf.writeUInt32BE(value, offset)\<close> of Node's
  Buffer: each throws a RangeError (code \<open>ERR_OUT_OF_RANGE\<close>) when the value does not fit
  the integer type being written or when the access leaves the buffer.
\<close>

definition readInt16LE :: "byte list \<Rightarrow> nat \<Rightarrow> error + int" where
  "readInt16LE buf off =
     (if off + 2 \<le> length buf
      then Inr (sint (word_of_int (uint (buf ! off) + 256 * uint (buf ! (off + 1))) :: 16 word))
      else Inl ERR_OUT_OF_RANGE)"

definition writeInt16LE :: "byte list \<Rightarrow> int \<Rightarrow> nat \<Rightarrow> error + byte list" where
  "writeInt16LE buf v off =
     (if v < - 32768 \<or> 32767 < v then Inl ERR_OUT_OF_RANGE
      else if length buf < off + 2 then Inl ERR_OUT_OF_RANGE
      else Inr (buf[off := word_of_int v, off + 1 := word_of_int (v div 256)]))"

definition writeUInt16BE :: "byte list \<Rightarrow> int \<Rightarrow> nat \<Rightarrow> error + byte list" where
  "writeUInt16BE buf v off =
     (if v < 0 \<or> 65535 < v then Inl ERR_OUT_OF_RANGE
      else if length buf < off + 2 then Inl ERR_OUT_OF_RANGE
      else Inr (buf[off := word_of_int (v div 256), off + 1 := word_of_int v]))"

definition writeUInt32BE :: "byte list \<Rightarrow> int \<Rightarrow> nat \<Rightarrow> error + byte list" where
  "writeUInt32BE buf v off =
     (if v < 0 \<or> 4294967295 < v then Inl ERR_OUT_OF_RANGE
      else if length buf < off + 4 then Inl ERR_OUT_OF_RANGE
      else Inr (buf[off := word_of_int (v div 16777216),
                    off + 1 := word_of_int (v div 65536),
                    off + 2 := word_of_int (v div 256),
                    off + 3 := word_of_int v]))"


section \<open>AudioTranscoder\<close>

subsection \<open>The static table initializer\<close>

text \<open>
  The body of the first loop of the static initializer, for one index \<open>i\<close>, and the
  table \<open>muLawToPcmTable\<close> (an \<open>Int16Array\<close> of 256 entries) it fills.
\<close>

definition muLawToPcmEntry :: "int \<Rightarrow> int" where
  "muLawToPcmEntry i =
     (let mu = js_not i;
          sign = js_and mu 0x80;
          exponent = js_sar (js_and mu 0x70) 4;
          mantissa = js_and mu 0x0F;
          sample = js_shl mantissa (exponent + 3) + 132;
          sample = (if exponent > 0 then sample + js_shl 1 (exponent + 2) else sample);
          sample = (if sign \<noteq> 0 then 132 - sample else sample - 132)
      in toInt16 sample)"

definition muLawToPcmTable :: "int list" where
  "muLawToPcmTable = map (\<lambda>i. muLawToPcmEntry (int i)) [0..<256]"

text \<open>
  The segment search
  \<open>for (mask = 0x4000; (sample & mask) === 0 && exponent > 0; exponent--, mask >>= 1);\<close>
  of the second loop.
\<close>

function exponentLoop :: "int \<Rightarrow> int \<Rightarrow> int \<Rightarrow> int" where
  "exponentLoop sample msk exponent =
     (if js_and sample msk = 0 \<and> exponent > 0
      then exponentLoop sample (js_sar msk 1) (exponent - 1)
      else exponent)"
  by pat_completeness auto
termination
  by (relation "measure (\<lambda>(sample, msk, exponent). nat exponent)") auto

declare exponentLoop.simps [simp del]

text \<open>
  The body of the second loop for one linear sample \<open>i\<close> between -32768 and 32767, and
  the table \<open>pcmToMuLawTable\<close> (a \<open>Uint8Array\<close> of 65536 entries, indexed by
  \<open>i + 32768\<close>).
\<close>

definition pcmToMuLawEntry :: "int \<Rightarrow> int" where
  "pcmToMuLawEntry i =
     (let sample = i;
          sign = (if sample < 0 then 0x80 else 0x00);
          sample = (if sample < 0 then - sample else sample);
          sample = sample + 132;
          sample = (if sample > 32635 then 32635 else sample);
          exponent = exponentLoop sample 0x4000 7;
          mantissa = js_and (js_sar sample (exponent + 3)) 0x0F;
          mu = js_not (js_or (js_or sign (js_shl exponent 4)) mantissa)
      in js_and mu 0xFF)"

definition pcmToMuLawTable :: "byte list" where
  "pcmToMuLawTable = map (\<lambda>n. word_of_int (pcmToMuLawEntry (int n - 32768))) [0..<65536]"

subsection \<open>pcm16ToMuLaw8\<close>

text \<open>
  The gain is a JavaScript number; it is modelled as a rational, and
  \<open>Math.floor(((sample1 + sample2) / 2) * gain)\<close> as the floor of the exact product. For
  the default gain 0.8 and 16-bit samples the double-precision product has the same floor:
  the half-integer \<open>(sample1 + sample2) / 2\<close> is exact, the product is either an integer
  (which the rounding of the product returns exactly) or at least 1/5 away from one.
\<close>

function pcm16ToMuLaw8_loop ::
    "byte list \<Rightarrow> rat \<Rightarrow> nat \<Rightarrow> nat \<Rightarrow> byte list \<Rightarrow> error + byte list" where
  "pcm16ToMuLaw8_loop pcmBuffer gain targetSamples i muLawBuffer =
     (if i < targetSamples then
        (case readInt16LE pcmBuffer (i * 4) of
           Inl e \<Rightarrow> Inl e
         | Inr sample1 \<Rightarrow>
            (case readInt16LE pcmBuffer (i * 4 + 2) of
               Inl e \<Rightarrow> Inl e
             | Inr sample2 \<Rightarrow>
                (let averagedPcm = \<lfloor>(of_int (sample1 + sample2) / 2) * gain\<rfloor>;
                     averagedPcm = max (- 32768) (min 32767 averagedPcm)
                 in pcm16ToMuLaw8_loop pcmBuffer gain targetSamples (i + 1)
                      (muLawBuffer[i := pcmToMuLawTable ! nat (averagedPcm + 32768)]))))
      else Inr muLawBuffer)"
  by pat_completeness auto
termination
  by (relation "measure (\<lambda>(pcmBuffer, gain, targetSamples, i, muLawBuffer). targetSamples - i)")
     auto

declare pcm16ToMuLaw8_loop.simps [simp del]

definition pcm16ToMuLaw8 :: "byte list \<Rightarrow> rat \<Rightarrow> error + byte list" where
  "pcm16ToMuLaw8 pcmBuffer gain =
     (let numSamples = length pcmBuffer div 2;
          targetSamples = numSamples div 2;
          muLawBuffer = replicate targetSamples 0
      in pcm16ToMuLaw8_loop pcmBuffer gain targetSamples 0 muLawBuffer)"

definition defaultGain :: rat where
  "defaultGain = 8 / 10"

subsection \<open>muLaw8ToPcm16 and resample8To16\<close>

function muLaw8ToPcm16_loop :: "byte list \<Rightarrow> nat \<Rightarrow> byte list \<Rightarrow> error + byte list" where
  "muLaw8ToPcm16_loop muLawBuffer i pcm8 =
     (if i < length muLawBuffer then
        (case writeInt16LE pcm8 (muLawToPcmTable ! unat (muLawBuffer ! i)) (i * 2) of
           Inl e \<Rightarrow> Inl e
         | Inr pcm8' \<Rightarrow> muLaw8ToPcm16_loop muLawBuffer (i + 1) pcm8')
      else Inr pcm8)"
  by pat_completeness auto
termination
  by (relation "measure (\<lambda>(muLawBuffer, i, pcm8). length muLawBuffer - i)") auto

declare muLaw8ToPcm16_loop.simps [simp del]

text \<open>
  In \<open>resample8To16\<close>, \<open>numSamples = pcm8.length / 2\<close> is not rounded; the loop test
  \<open>i < numSamples\<close> is \<open>2 * i < pcm8.length\<close> and \<open>i < numSamples - 1\<close> is
  \<open>2 * i + 2 < pcm8.length\<close>.
\<close>

function resample8To16_loop :: "byte list \<Rightarrow> nat \<Rightarrow> byte list \<Rightarrow> error + byte list" where
  "resample8To16_loop pcm8 i target =
     (if 2 * i < length pcm8 then
        (case readInt16LE pcm8 (i * 2) of
           Inl e \<Rightarrow> Inl e
         | Inr current \<Rightarrow>
            (case (if 2 * i + 2 < length pcm8 then readInt16LE pcm8 ((i + 1) * 2)
                   else Inr current) of
               Inl e \<Rightarrow> Inl e
             | Inr next \<Rightarrow>
                (case writeInt16LE target current (i * 4) of
                   Inl e \<Rightarrow> Inl e
                 | Inr target1 \<Rightarrow>
                    (let interpolated = (current + next) div 2
                     in (case writeInt16LE target1 interpolated (i * 4 + 2) of
                           Inl e \<Rightarrow> Inl e
                         | Inr target2 \<Rightarrow> resample8To16_loop pcm8 (i + 1) target2)))))
      else Inr target)"
  by pat_completeness auto
termination
  by (relation "measure (\<lambda>(pcm8, i, target). length pcm8 - 2 * i)") auto

declare resample8To16_loop.simps [simp del]

definition resample8To16 :: "byte list \<Rightarrow> error + byte list" where
  "resample8To16 pcm8 = resample8To16_loop pcm8 0 (replicate (length pcm8 * 2) 0)"

definition muLaw8ToPcm16 :: "byte list \<Rightarrow> error + byte list" where
  "muLaw8ToPcm16 muLawBuffer =
     (case muLaw8ToPcm16_loop muLawBuffer 0 (replicate (length muLawBuffer * 2) 0) of
        Inl e \<Rightarrow> Inl e
      | Inr pcm8 \<Rightarrow> resample8To16 pcm8)"


section \<open>RTPBridge\<close>

text \<open>
  The fields of the class. The UDP socket is reduced to what the methods observe of it:
  whether its handle is still there (Node's \<open>dgram\<close> socket has one from
  \<open>createSocket\<close> until \<open>close()\<close>). \<open>pacerTimer\<close> records whether the field holds a
  timer. Two logs stand for the effects: \<open>wire\<close> lists the datagrams handed to
  \<open>socket.send\<close> with their destination, oldest first, and \<open>audioEvents\<close> the buffers
  emitted as \<open>'audio'\<close> events.
\<close>

datatype socket_handle = Running | NotRunning

record RTPBridge =
  socket :: socket_handle
  remoteAddress :: "string option"
  remotePort :: "int option"
  sequenceNumber :: int
  timestamp :: int
  ssrc :: int
  isRunning :: bool
  localPort :: int
  audioBuffer :: "byte list"
  pacerTimer :: bool
  packetCount :: int
  receiveCount :: int
  wire :: "(string option \<times> int \<times> byte list) list"
  audioEvents :: "byte list list"

text \<open>
  A method that can throw returns the error, if any, together with the fields as they are
  when the method is left.
\<close>

type_synonym 'a outcome = "error option \<times> 'a"

text \<open>The constructor; \<open>r\<close> is the value of \<open>Math.floor(Math.random() * 0xFFFFFFFF)\<close>.\<close>

definition newRTPBridge :: "int \<Rightarrow> RTPBridge" where
  "newRTPBridge r =
     \<lparr> socket = Running, remoteAddress = None, remotePort = None, sequenceNumber = 0,
       timestamp = 0, ssrc = r, isRunning = False, localPort = 0, audioBuffer = [],
       pacerTimer = False, packetCount = 0, receiveCount = 0, wire = [], audioEvents = [] \<rparr>"

definition setRemoteDestination :: "string \<Rightarrow> int \<Rightarrow> RTPBridge \<Rightarrow> RTPBridge" where
  "setRemoteDestination address port b = b\<lparr>remoteAddress := Some address, remotePort := Some port\<rparr>"

definition handleRTPPacket :: "byte list \<Rightarrow> RTPBridge \<Rightarrow> RTPBridge outcome" where
  "handleRTPPacket packet b =
     (if length packet < 12 then (None, b)
      else
        (let payloadType = js_and (uint (packet ! 1)) 0x7F
         in if payloadType \<noteq> 0 then (None, b)
            else
              (let payload = drop 12 packet
               in (case muLaw8ToPcm16 payload of
                     Inl e \<Rightarrow> (Some e, b)
                   | Inr pcm16 \<Rightarrow>
                       (None, b\<lparr>receiveCount := receiveCount b + 1,
                                audioEvents := audioEvents b @ [pcm16]\<rparr>)))))"

text \<open>
  \<open>!x\<close> for a field of type \<open>string | null\<close> and of type \<open>number | null\<close>: the empty
  string and 0 are falsy like \<open>null\<close>.
\<close>

definition falsyString :: "string option \<Rightarrow> bool" where
  "falsyString x = (case x of None \<Rightarrow> True | Some s \<Rightarrow> s = [])"

definition falsyNumber :: "int option \<Rightarrow> bool" where
  "falsyNumber x = (case x of None \<Rightarrow> True | Some n \<Rightarrow> n = 0)"

definition sendAudio :: "byte list \<Rightarrow> RTPBridge \<Rightarrow> RTPBridge outcome" where
  "sendAudio pcm16 b =
     (if \<not> isRunning b \<or> falsyString (remoteAddress b) \<or> falsyNumber (remotePort b)
      then (None, b)
      else (case pcm16ToMuLaw8 pcm16 defaultGain of
              Inl e \<Rightarrow> (Some e, b)
            | Inr muLaw \<Rightarrow> (None, b\<lparr>audioBuffer := audioBuffer b @ muLaw\<rparr>)))"

text \<open>
  \<open>socket.send(packet, 0, packet.length, port, address, callback)\<close> throws when the socket
  has been closed and when the port is not a number from 1 to 65535; a missing address
  stands for the local host. The callback runs later, see \<open>sendCallback\<close>.
\<close>

definition socket_send ::
    "byte list \<Rightarrow> RTPBridge \<Rightarrow> error + (string option \<times> int \<times> byte list)" where
  "socket_send packet b =
     (case remotePort b of
        None \<Rightarrow> Inl ERR_SOCKET_BAD_PORT
      | Some port \<Rightarrow>
          if port < 1 \<or> 65535 < port then Inl ERR_SOCKET_BAD_PORT
          else if socket b = NotRunning then Inl ERR_SOCKET_DGRAM_NOT_RUNNING
          else Inr (remoteAddress b, port, packet))"

definition sendRTPPacket :: "byte list \<Rightarrow> RTPBridge \<Rightarrow> RTPBridge outcome" where
  "sendRTPPacket payload b =
     (let packet = replicate (12 + length payload) 0;
          packet = packet[0 := 0x80];
          packet = packet[1 := 0x00]
      in (case writeUInt16BE packet (sequenceNumber b) 2 of
            Inl e \<Rightarrow> (Some e, b)
          | Inr packet \<Rightarrow>
             (case writeUInt32BE packet (timestamp b) 4 of
                Inl e \<Rightarrow> (Some e, b)
              | Inr packet \<Rightarrow>
                 (case writeUInt32BE packet (ssrc b) 8 of
                    Inl e \<Rightarrow> (Some e, b)
                  | Inr packet \<Rightarrow>
                     (let packet = take 12 packet @ payload
                      in (case socket_send packet b of
                            Inl e \<Rightarrow> (Some e, b)
                          | Inr datagram \<Rightarrow>
                              (None,
                               b\<lparr>wire := wire b @ [datagram],
                                 sequenceNumber := js_and (sequenceNumber b + 1) 0xFFFF,
                                 timestamp :=
                                   js_and (timestamp b + int (length payload)) 0xFFFFFFFF\<rparr>)))))))"

text \<open>The callback of \<open>socket.send\<close>, run by the event loop once the datagram is out.\<close>

definition sendCallback :: "bool \<Rightarrow> RTPBridge \<Rightarrow> RTPBridge" where
  "sendCallback err b = (if err then b else b\<lparr>packetCount := packetCount b + 1\<rparr>)"

text \<open>
  One run of the closure \<open>tick\<close> of \<open>startPacer\<close>. The delay of the next run is not
  modelled; \<open>pacerTimer\<close> records that a next run has been scheduled.
\<close>

definition tick :: "RTPBridge \<Rightarrow> RTPBridge outcome" where
  "tick b =
     (if \<not> isRunning b then (None, b)
      else
        (let chunkSize = 160
         in if packetCount b = 0 \<and> length (audioBuffer b) < 480
            then (None, b\<lparr>pacerTimer := True\<rparr>)
            else
              (case (if length (audioBuffer b) \<ge> chunkSize
                     then (let chunk = take chunkSize (audioBuffer b)
                           in sendRTPPacket chunk
                                (b\<lparr>audioBuffer := drop chunkSize (audioBuffer b)\<rparr>))
                     else (None, b)) of
                 (Some e, b') \<Rightarrow> (Some e, b')
               | (None, b') \<Rightarrow> (None, b'\<lparr>pacerTimer := True\<rparr>))))"

definition startPacer :: "RTPBridge \<Rightarrow> RTPBridge outcome" where
  "startPacer b = (if pacerTimer b then (None, b) else tick b)"

text \<open>\<open>start()\<close>, from the callback of \<open>bind\<close> on; \<open>port\<close> is the port the system chose.\<close>

definition start :: "int \<Rightarrow> RTPBridge \<Rightarrow> RTPBridge outcome" where
  "start port b = startPacer (b\<lparr>localPort := port, isRunning := True\<rparr>)"

definition clearAudioBuffer :: "RTPBridge \<Rightarrow> RTPBridge" where
  "clearAudioBuffer b = b\<lparr>audioBuffer := []\<rparr>"

text \<open>
  \<open>socket.close()\<close> of Node's \<open>dgram\<close> throws \<open>ERR_SOCKET_DGRAM_NOT_RUNNING\<close> on a socket
  that has already been closed.
\<close>

definition socket_close :: "socket_handle \<Rightarrow> error + socket_handle" where
  "socket_close h = (case h of NotRunning \<Rightarrow> Inl ERR_SOCKET_DGRAM_NOT_RUNNING
                             | Running \<Rightarrow> Inr NotRunning)"

definition stop :: "RTPBridge \<Rightarrow> RTPBridge outcome" where
  "stop b =
     (let b = b\<lparr>isRunning := False\<rparr>;
          b = (if pacerTimer b then b\<lparr>pacerTimer := False\<rparr> else b)
      in (case socket_close (socket b) of
            Inl e \<Rightarrow> (Some e, b)
          | Inr h \<Rightarrow> (None, b\<lparr>socket := h, audioBuffer := []\<rparr>)))"


section \<open>VivPhoneSIPClient\<close>

text \<open>
  \<open>config.sip\<close>, and what the client takes from outside: the hash
  \<open>crypto.createHash('md5').update(s).digest('hex')\<close> as a function of \<open>s\<close>, and the value
  of \<open>crypto.randomBytes(8).toString('hex')\<close>.
\<close>

record sip_config =
  sip_username :: string
  sip_password :: string
  sip_domain :: string

record sip_env =
  config :: sip_config
  md5 :: "string \<Rightarrow> string"
  randomHex :: string

text \<open>
  A response is read through regular expressions only. The model takes the response as the
  matches of those expressions: \<open>SIP/2.0 (\d+)\<close>, \<open>CSeq: (\d+)\<close>, \<open>To:.*tag=...\<close>, the
  parameters \<open>parseAuthHeader\<close> finds after \<open>WWW-Authenticate: Digest\<close> or
  \<open>Proxy-Authenticate: Digest\<close>, \<open>c=IN IP4 ...\<close> and \<open>m=audio (\d+) RTP/AVP\<close>; \<open>None\<close>
  where an expression does not match.
\<close>

record authParams =
  p_realm :: "string option"
  p_nonce :: "string option"
  p_qop :: "string option"

record sip_response =
  statusCodeMatch :: "nat option"
  cseqMatch :: "nat option"
  toTagMatch :: "string option"
  authMatch :: "authParams option"
  connectionMatch :: "string option"
  mediaMatch :: "int option"

text \<open>
  An entry of \<open>activeCalls\<close>, as \<open>makeCall\<close> stores it. \<open>call_socket\<close> tells whether
  \<open>call.socket\<close> is set; \<open>rtpBridge\<close> refers to a bridge in the store \<open>bridges\<close> of the
  client, since the bridge object is shared with the timer of \<open>endCall\<close>.
  \<open>lastAuthCSeq\<close> is absent until the first challenge is answered.
\<close>

record call =
  phoneNumber :: string
  status :: string
  call_socket :: bool
  cseq :: nat
  fromTag :: string
  rtpBridge :: "nat option"
  authAttempts :: nat
  lastAuthCSeq :: "nat option"

text \<open>
  The requests handed to the signalling socket, reduced to method, CSeq and the header that
  varies; the events emitted; the client.
\<close>

datatype sip_request =
    INVITE nat "string option"
  | ACK nat "string option"
  | BYE nat

datatype sip_event =
    EvRinging string
  | EvConnected string
  | EvFailed string nat
  | EvEnded string

record VivPhoneSIPClient =
  activeCalls :: "string \<rightharpoonup> call"
  callSequence :: nat
  bridges :: "nat \<rightharpoonup> RTPBridge"
  sent :: "sip_request list"
  events :: "sip_event list"
  pendingTeardown :: "call list"

definition newCall :: "string \<Rightarrow> nat \<Rightarrow> string \<Rightarrow> nat \<Rightarrow> call" where
  "newCall number seq tag bridge =
     \<lparr> phoneNumber = number, status = ''calling'', call_socket = True, cseq = seq,
       fromTag = tag, rtpBridge = Some bridge, authAttempts = 0, lastAuthCSeq = None \<rparr>"

definition handleSDPResponse ::
    "sip_response \<Rightarrow> string \<Rightarrow> VivPhoneSIPClient \<Rightarrow> VivPhoneSIPClient" where
  "handleSDPResponse response callId c =
     (case activeCalls c callId of
        None \<Rightarrow> c
      | Some cl \<Rightarrow>
         (case rtpBridge cl of
            None \<Rightarrow> c
          | Some ref \<Rightarrow>
             (let remoteIp = (case connectionMatch response of
                                Some ip \<Rightarrow> ip | None \<Rightarrow> ''51.195.161.145'');
                  remotePort = mediaMatch response
              in if falsyNumber remotePort then c
                 else (case (remotePort, bridges c ref) of
                         (Some port, Some b) \<Rightarrow>
                           c\<lparr>bridges := (bridges c)(ref \<mapsto> setRemoteDestination remoteIp port b)\<rparr>
                       | _ \<Rightarrow> c))))"

definition sendACK ::
    "string \<Rightarrow> sip_response \<Rightarrow> VivPhoneSIPClient \<Rightarrow> VivPhoneSIPClient" where
  "sendACK callId response c =
     (case activeCalls c callId of
        None \<Rightarrow> c
      | Some cl \<Rightarrow>
          if call_socket cl then c\<lparr>sent := sent c @ [ACK (cseq cl) (toTagMatch response)]\<rparr>
          else c)"

definition quoted :: "string \<Rightarrow> string" where
  "quoted s = CHR 0x22 # s @ [CHR 0x22]"

text \<open>
  The digest computation of \<open>handleAuthentication\<close> ("Calculate digest response"): the
  pair of \<open>responseHash\<close> and \<open>authHeader\<close>.
\<close>

definition digestResponse :: "sip_env \<Rightarrow> string \<Rightarrow> authParams \<Rightarrow> string \<times> string" where
  "digestResponse env number params =
     (let username = sip_username (config env);
          password = sip_password (config env);
          realm = (case p_realm params of
                     None \<Rightarrow> sip_domain (config env)
                   | Some r \<Rightarrow> if r = [] then sip_domain (config env) else r);
          nonce = (case p_nonce params of None \<Rightarrow> [] | Some n \<Rightarrow> n);
          uri = ''sip:'' @ number @ ''@'' @ sip_domain (config env);
          method = ''INVITE'';
          ha1 = md5 env (username @ '':'' @ realm @ '':'' @ password);
          ha2 = md5 env (method @ '':'' @ uri)
      in if p_qop params = Some ''auth''
         then
           (let nc = ''00000001'';
                cnonce = randomHex env;
                responseHash =
                  md5 env (ha1 @ '':'' @ nonce @ '':'' @ nc @ '':'' @ cnonce @ '':auth:'' @ ha2)
            in (responseHash,
                ''Authorization: Digest username='' @ quoted username @ '', realm=''
                  @ quoted realm @ '', nonce='' @ quoted nonce @ '', uri='' @ quoted uri
                  @ '', response='' @ quoted responseHash @ '', qop=auth, nc='' @ nc
                  @ '', cnonce='' @ quoted cnonce @ '', algorithm=MD5''))
         else
           (let responseHash = md5 env (ha1 @ '':'' @ nonce @ '':'' @ ha2)
            in (responseHash,
                ''Authorization: Digest username='' @ quoted username @ '', realm=''
                  @ quoted realm @ '', nonce='' @ quoted nonce @ '', uri='' @ quoted uri
                  @ '', response='' @ quoted responseHash @ '', algorithm=MD5'')))"

definition handleAuthentication ::
    "sip_env \<Rightarrow> sip_response \<Rightarrow> string \<Rightarrow> string \<Rightarrow> VivPhoneSIPClient \<Rightarrow> VivPhoneSIPClient"
  where
  "handleAuthentication env response callId number c =
     (case activeCalls c callId of
        None \<Rightarrow> c
      | Some cl \<Rightarrow>
         (case authMatch response of
            None \<Rightarrow> c
          | Some params \<Rightarrow>
             (let authHeader = snd (digestResponse env number params);
                  c = c\<lparr>callSequence := callSequence c + 1\<rparr>;
                  cl = cl\<lparr>cseq := callSequence c\<rparr>;
                  c = c\<lparr>activeCalls := (activeCalls c)(callId \<mapsto> cl)\<rparr>
              in if call_socket cl
                 then c\<lparr>sent := sent c @ [INVITE (callSequence c) (Some authHeader)]\<rparr>
                 else c)))"

text \<open>
  \<open>endCall\<close>. The BYE text is built, and \<open>callSequence\<close> incremented, before
  \<open>call.socket\<close> is tested. The timer that stops the bridge and closes the socket 500 ms
  later is kept in \<open>pendingTeardown\<close>.
\<close>

definition endCall :: "string \<Rightarrow> VivPhoneSIPClient \<Rightarrow> VivPhoneSIPClient" where
  "endCall callId c =
     (case activeCalls c callId of
        None \<Rightarrow> c
      | Some cl \<Rightarrow>
         (let bye = BYE (callSequence c);
              c = c\<lparr>callSequence := callSequence c + 1\<rparr>;
              c = (if call_socket cl
                   then c\<lparr>sent := sent c @ [bye], pendingTeardown := pendingTeardown c @ [cl]\<rparr>
                   else c);
              c = c\<lparr>activeCalls := (activeCalls c)(callId := None)\<rparr>
          in c\<lparr>events := events c @ [EvEnded callId]\<rparr>))"

text \<open>\<open>!call.lastAuthCSeq\<close>: true when the field is absent and when it is 0.\<close>

definition falsyCSeq :: "nat option \<Rightarrow> bool" where
  "falsyCSeq x = (case x of None \<Rightarrow> True | Some n \<Rightarrow> n = 0)"

definition handleSIPResponse ::
    "sip_env \<Rightarrow> sip_response \<Rightarrow> string \<Rightarrow> string \<Rightarrow> VivPhoneSIPClient \<Rightarrow> VivPhoneSIPClient"
  where
  "handleSIPResponse env response callId number c =
     (case statusCodeMatch response of
        None \<Rightarrow> c
      | Some statusCode \<Rightarrow>
         (let cl = activeCalls c callId
          in if statusCode = 100 then c
             else if statusCode = 180 then
               (let c = handleSDPResponse response callId c
                in c\<lparr>events := events c @ [EvRinging callId]\<rparr>)
             else if statusCode = 183 then handleSDPResponse response callId c
             else if statusCode = 200 then
               (let c = handleSDPResponse response callId c;
                    c = c\<lparr>events := events c @ [EvConnected callId]\<rparr>
                in sendACK callId response c)
             else if statusCode = 401 \<or> statusCode = 407 then
               (let c = sendACK callId response c;
                    respCSeq = (case cseqMatch response of Some n \<Rightarrow> n | None \<Rightarrow> 0)
                in (case cl of
                      None \<Rightarrow> c
                    | Some cl \<Rightarrow>
                        if authAttempts cl < 3
                           \<and> (falsyCSeq (lastAuthCSeq cl)
                                \<or> (case lastAuthCSeq cl of
                                      None \<Rightarrow> False
                                    | Some lastCSeq \<Rightarrow> respCSeq > lastCSeq))
                        then
                          (let cl = cl\<lparr>authAttempts := authAttempts cl + 1,
                                       lastAuthCSeq := Some respCSeq\<rparr>;
                               c = c\<lparr>activeCalls := (activeCalls c)(callId \<mapsto> cl)\<rparr>
                           in handleAuthentication env response callId number c)
                        else c))
             else if statusCode \<ge> 300 then
               (let c = c\<lparr>events := events c @ [EvFailed callId statusCode]\<rparr>
                in (case activeCalls c callId of
                      None \<Rightarrow> c
                    | Some _ \<Rightarrow> endCall callId c))
             else c))"

text \<open>
  The spec's digest, in its words: \<open>HA1 = MD5(username:realm:password)\<close>,
  \<open>HA2 = MD5(INVITE:requestURI)\<close>; with \<open>qop=auth\<close> the response is
  \<open>MD5(HA1:nonce:nc:cnonce:auth:HA2)\<close> with \<open>nc=00000001\<close>, otherwise
  \<open>MD5(HA1:nonce:HA2)\<close>.
\<close>

definition rfc2617_response ::
    "(string \<Rightarrow> string) \<Rightarrow> string \<Rightarrow> string \<Rightarrow> string \<Rightarrow> string \<Rightarrow> string \<Rightarrow> bool \<Rightarrow> string \<Rightarrow> string"
  where
  "rfc2617_response MD5 username realm password nonce requestURI qopAuth cnonce =
     (let HA1 = MD5 (username @ '':'' @ realm @ '':'' @ password);
          HA2 = MD5 (''INVITE:'' @ requestURI)
      in if qopAuth
         then MD5 (HA1 @ '':'' @ nonce @ '':00000001:'' @ cnonce @ '':auth:'' @ HA2)
         else MD5 (HA1 @ '':'' @ nonce @ '':'' @ HA2))"


section \<open>Auxiliary notions for the statements\<close>

text \<open>
  The width of the quantization interval of the compression curve at a linear amplitude:
  segment \<open>e\<close> of the encoder, found as \<open>pcmToMuLawEntry\<close> finds it, has 16 intervals of
  \<open>2 ^ (e + 3)\<close> linear units each.
\<close>

definition muLawStep :: "int \<Rightarrow> int" where
  "muLawStep amplitude =
     (let sample = \<bar>amplitude\<bar> + 132;
          sample = (if sample > 32635 then 32635 else sample)
      in 2 ^ nat (exponentLoop sample 0x4000 7 + 3))"

text \<open>
  The state in which \<open>sendRTPPacket\<close> gets a datagram out: the socket is open, the port
  is one \<open>socket.send\<close> accepts, and the three header fields fit their unsigned types.
\<close>

definition sendable :: "RTPBridge \<Rightarrow> bool" where
  "sendable b =
     (socket b = Running
      \<and> (case remotePort b of None \<Rightarrow> False | Some port \<Rightarrow> 1 \<le> port \<and> port \<le> 65535)
      \<and> 0 \<le> sequenceNumber b \<and> sequenceNumber b \<le> 65535
      \<and> 0 \<le> timestamp b \<and> timestamp b \<le> 4294967295
      \<and> 0 \<le> ssrc b \<and> ssrc b \<le> 4294967295)"

text \<open>The twelve header bytes of the packet built from the fields of the bridge.\<close>

definition rtpHeader :: "RTPBridge \<Rightarrow> byte list" where
  "rtpHeader b =
     [0x80, 0x00,
      word_of_int (sequenceNumber b div 256), word_of_int (sequenceNumber b),
      word_of_int (timestamp b div 16777216), word_of_int (timestamp b div 65536),
      word_of_int (timestamp b div 256), word_of_int (timestamp b),
      word_of_int (ssrc b div 16777216), word_of_int (ssrc b div 65536),
      word_of_int (ssrc b div 256), word_of_int (ssrc b)]"

text \<open>The bridge after \<open>n\<close> packets of 160 bytes, as the pacer sends them.\<close>

fun sendPackets :: "nat \<Rightarrow> RTPBridge \<Rightarrow> RTPBridge" where
  "sendPackets 0 b = b"
| "sendPackets (Suc n) b = snd (sendRTPPacket (replicate 160 0xFF) (sendPackets n b))"

text \<open>
  Concrete states for the closed statements: a bridge that has been started (which runs the
  first tick) and has then been given the remote destination; an environment, whose hash
  function is a stand-in (no closed statement below depends on what it computes); a client
  with one active call and its bridge; a response with a digest challenge.
\<close>

definition demoBridge :: RTPBridge where
  "demoBridge = setRemoteDestination ''10.0.0.2'' 40000 (snd (start 5004 (newRTPBridge 7)))"

definition demoEnv :: sip_env where
  "demoEnv = \<lparr> config = \<lparr> sip_username = ''alice'', sip_password = ''secret'',
                            sip_domain = ''example.com'' \<rparr>,
               md5 = id, randomHex = ''0123456789abcdef'' \<rparr>"

definition demoClient :: "call \<Rightarrow> VivPhoneSIPClient" where
  "demoClient cl =
     \<lparr> activeCalls = [''call-1'' \<mapsto> cl], callSequence = cseq cl,
       bridges = [0 \<mapsto> newRTPBridge 7], sent = [], events = [], pendingTeardown = [] \<rparr>"

definition demoChallenge :: "nat \<Rightarrow> nat option \<Rightarrow> sip_response" where
  "demoChallenge code cs =
     \<lparr> statusCodeMatch = Some code, cseqMatch = cs, toTagMatch = None,
       authMatch = Some \<lparr> p_realm = Some ''example.com'', p_nonce = Some ''abc123'',
                          p_qop = None \<rparr>,
       connectionMatch = None, mediaMatch = None \<rparr>"


section \<open>Bit operations and buffers\<close>

lemma toInt32_id:
  "- 2147483648 \<le> x \<Longrightarrow> x < 2147483648 \<Longrightarrow> sint (word_of_int x :: 32 word) = x"
  by (simp add: sint_sbintrunc' signed_take_bit_int_eq_self)

lemma js_and_int:
  "- 2147483648 \<le> x \<Longrightarrow> x < 2147483648 \<Longrightarrow> - 2147483648 \<le> y \<Longrightarrow> y < 2147483648 \<Longrightarrow>
   js_and x y = x AND y"
  unfolding js_and_def signed_and_eq by (simp only: toInt32_id)

lemma js_and_low7: "js_and (uint (w :: byte)) 0x7F = uint (w AND 0x7F)"
proof -
  have "uint w < 2 ^ LENGTH(8)" by (rule unsigned_less)
  then have "uint w < 2147483648" by simp
  moreover have "- 2147483648 \<le> uint w"
    by (rule order_trans [of _ 0]) simp_all
  ultimately have "js_and (uint w) 0x7F = uint w AND 0x7F"
    by (intro js_and_int) simp_all
  then show ?thesis by (simp add: uint_and)
qed

lemma js_and_int32: "- 2147483648 \<le> x \<Longrightarrow> x < 2147483648 \<Longrightarrow> js_and x 0xFFFFFFFF = x"
proof -
  assume a: "- 2147483648 \<le> x" "x < 2147483648"
  have m: "(0xFFFFFFFF :: 32 word) = - 1" by simp
  show ?thesis using a by (simp add: js_and_def m toInt32_id)
qed

lemma js_and_u16: "0 \<le> x \<Longrightarrow> x < 2147483648 \<Longrightarrow> js_and x 0xFFFF = x mod 65536"
proof -
  assume a: "0 \<le> x" "x < 2147483648"
  have m: "(0xFFFF :: int) = mask 16" by (simp add: mask_eq_exp_minus_1)
  have "js_and x 0xFFFF = x AND 0xFFFF"
    using a by (intro js_and_int) simp_all
  also have "\<dots> = take_bit 16 x" by (simp only: m take_bit_eq_mask)
  finally show ?thesis by (simp add: take_bit_eq_mod)
qed

lemma readInt16LE_ok:
  "off + 2 \<le> length buf \<Longrightarrow> \<exists>v. readInt16LE buf off = Inr v \<and> - 32768 \<le> v \<and> v \<le> 32767"
proof -
  assume a: "off + 2 \<le> length buf"
  let ?w = "word_of_int (uint (buf ! off) + 256 * uint (buf ! (off + 1))) :: 16 word"
  have "- (2 ^ (LENGTH(16) - 1)) \<le> sint ?w" by (rule sint_ge)
  moreover have "sint ?w < 2 ^ (LENGTH(16) - 1)" by (rule sint_lt)
  ultimately show ?thesis using a by (simp add: readInt16LE_def)
qed

lemma writeInt16LE_ok:
  "- 32768 \<le> v \<Longrightarrow> v \<le> 32767 \<Longrightarrow> off + 2 \<le> length buf \<Longrightarrow>
   \<exists>r. writeInt16LE buf v off = Inr r \<and> length r = length buf"
  by (simp add: writeInt16LE_def)

lemma toInt16_range: "- 32768 \<le> toInt16 x \<and> toInt16 x \<le> 32767"
proof -
  let ?w = "word_of_int x :: 16 word"
  have "- (2 ^ (LENGTH(16) - 1)) \<le> sint ?w" by (rule sint_ge)
  moreover have "sint ?w < 2 ^ (LENGTH(16) - 1)" by (rule sint_lt)
  ultimately show ?thesis by (simp add: toInt16_def)
qed


section \<open>The transcoder never throws, and the lengths of its results\<close>

lemma muLawToPcmTable_nth: "i < 256 \<Longrightarrow> muLawToPcmTable ! i = muLawToPcmEntry (int i)"
  by (simp add: muLawToPcmTable_def)

lemma pcmToMuLawTable_nth:
  "n < 65536 \<Longrightarrow> pcmToMuLawTable ! n = word_of_int (pcmToMuLawEntry (int n - 32768))"
  by (simp add: pcmToMuLawTable_def)

lemma muLawToPcmTable_range:
  "- 32768 \<le> muLawToPcmTable ! unat (b :: byte) \<and> muLawToPcmTable ! unat b \<le> 32767"
proof -
  have "unat b < 2 ^ LENGTH(8)" by (rule unsigned_less)
  then have "unat b < 256" by simp
  then show ?thesis
    using toInt16_range by (simp add: muLawToPcmTable_nth muLawToPcmEntry_def Let_def)
qed

lemma pcm16ToMuLaw8_loop_ok:
  "4 * targetSamples \<le> length pcmBuffer \<Longrightarrow> length muLawBuffer = targetSamples \<Longrightarrow>
   \<exists>out. pcm16ToMuLaw8_loop pcmBuffer gain targetSamples i muLawBuffer = Inr out
     \<and> length out = targetSamples"
proof (induction pcmBuffer gain targetSamples i muLawBuffer rule: pcm16ToMuLaw8_loop.induct)
  case (1 pcmBuffer gain targetSamples i muLawBuffer)
  show ?case
  proof (cases "i < targetSamples")
    case False
    then show ?thesis using "1.prems" by (simp add: pcm16ToMuLaw8_loop.simps)
  next
    case True
    then have r1: "i * 4 + 2 \<le> length pcmBuffer" and r2: "i * 4 + 2 + 2 \<le> length pcmBuffer"
      using "1.prems" by auto
    obtain s1 where s1: "readInt16LE pcmBuffer (i * 4) = Inr s1"
      using readInt16LE_ok [OF r1] by blast
    obtain s2 where s2: "readInt16LE pcmBuffer (i * 4 + 2) = Inr s2"
      using readInt16LE_ok [OF r2] by blast
    show ?thesis
      using True s1 s2 "1.IH" [OF True s1 s2 refl refl] "1.prems"
      by (subst pcm16ToMuLaw8_loop.simps) (simp add: Let_def)
  qed
qed

lemma pcm16ToMuLaw8_length:
  "\<exists>out. pcm16ToMuLaw8 pcmBuffer gain = Inr out \<and> length out = length pcmBuffer div 4"
proof -
  have e: "length pcmBuffer div 2 div 2 = length pcmBuffer div 4" by presburger
  have "4 * (length pcmBuffer div 2 div 2) \<le> length pcmBuffer" by simp
  then show ?thesis
    using pcm16ToMuLaw8_loop_ok [of "length pcmBuffer div 2 div 2" pcmBuffer
        "replicate (length pcmBuffer div 2 div 2) 0" gain 0]
    by (simp add: pcm16ToMuLaw8_def Let_def e)
qed

lemma muLaw8ToPcm16_loop_ok:
  "length pcm8 = 2 * length muLawBuffer \<Longrightarrow>
   \<exists>out. muLaw8ToPcm16_loop muLawBuffer i pcm8 = Inr out \<and> length out = 2 * length muLawBuffer"
proof (induction muLawBuffer i pcm8 rule: muLaw8ToPcm16_loop.induct)
  case (1 muLawBuffer i pcm8)
  show ?case
  proof (cases "i < length muLawBuffer")
    case False
    then show ?thesis using "1.prems" by (simp add: muLaw8ToPcm16_loop.simps)
  next
    case True
    let ?v = "muLawToPcmTable ! unat (muLawBuffer ! i)"
    have off: "i * 2 + 2 \<le> length pcm8" using True "1.prems" by simp
    obtain p where p: "writeInt16LE pcm8 ?v (i * 2) = Inr p" and lp: "length p = length pcm8"
      using writeInt16LE_ok [of ?v "i * 2" pcm8] muLawToPcmTable_range [of "muLawBuffer ! i"] off
      by blast
    show ?thesis
      using True p lp "1.IH" [OF True p] "1.prems"
      by (subst muLaw8ToPcm16_loop.simps) simp
  qed
qed

lemma half_sum_range:
  "- 32768 \<le> (a::int) \<Longrightarrow> a \<le> 32767 \<Longrightarrow> - 32768 \<le> b \<Longrightarrow> b \<le> 32767 \<Longrightarrow>
   - 32768 \<le> (a + b) div 2 \<and> (a + b) div 2 \<le> 32767"
  by presburger

lemma resample8To16_loop_ok:
  "even (length pcm8) \<Longrightarrow> length target = 2 * length pcm8 \<Longrightarrow>
   \<exists>out. resample8To16_loop pcm8 i target = Inr out \<and> length out = 2 * length pcm8"
proof (induction pcm8 i target rule: resample8To16_loop.induct)
  case (1 pcm8 i target)
  show ?case
  proof (cases "2 * i < length pcm8")
    case False
    then show ?thesis using "1.prems" by (simp add: resample8To16_loop.simps)
  next
    case True
    have r1: "i * 2 + 2 \<le> length pcm8" using True "1.prems"(1) by presburger
    obtain c where c: "readInt16LE pcm8 (i * 2) = Inr c" and cr: "- 32768 \<le> c" "c \<le> 32767"
      using readInt16LE_ok [OF r1] by blast
    let ?nx = "if 2 * i + 2 < length pcm8 then readInt16LE pcm8 ((i + 1) * 2) else Inr c"
    have "\<exists>n. ?nx = Inr n \<and> - 32768 \<le> n \<and> n \<le> 32767"
    proof (cases "2 * i + 2 < length pcm8")
      case False
      then show ?thesis using cr by simp
    next
      case True
      then have "(i + 1) * 2 + 2 \<le> length pcm8" using "1.prems"(1) by presburger
      from readInt16LE_ok [OF this] show ?thesis using True by simp
    qed
    then obtain n where n: "?nx = Inr n" and nr: "- 32768 \<le> n" "n \<le> 32767" by blast
    have w1: "i * 4 + 2 \<le> length target" using True "1.prems"(2) by simp
    obtain t1 where t1: "writeInt16LE target c (i * 4) = Inr t1" and l1: "length t1 = length target"
      using writeInt16LE_ok [OF cr w1] by blast
    have w2: "i * 4 + 2 + 2 \<le> length t1" using r1 l1 "1.prems"(2) by simp
    have ir: "- 32768 \<le> (c + n) div 2" "(c + n) div 2 \<le> 32767"
      using half_sum_range [OF cr nr] by simp_all
    obtain t2 where t2: "writeInt16LE t1 ((c + n) div 2) (i * 4 + 2) = Inr t2"
        and l2: "length t2 = length t1"
      using writeInt16LE_ok [OF ir w2] by blast
    have "\<exists>out. resample8To16_loop pcm8 (i + 1) t2 = Inr out \<and> length out = 2 * length pcm8"
      using "1.IH" [OF True c n t1 refl t2] "1.prems" l1 l2 by simp
    then show ?thesis
      using True c n t1 t2
      by (subst resample8To16_loop.simps) (simp add: Let_def)
  qed
qed

lemma muLaw8ToPcm16_length:
  "\<exists>out. muLaw8ToPcm16 muLawBuffer = Inr out \<and> length out = length muLawBuffer * 4"
proof -
  obtain pcm8
    where p: "muLaw8ToPcm16_loop muLawBuffer 0 (replicate (length muLawBuffer * 2) 0) = Inr pcm8"
      and lp: "length pcm8 = 2 * length muLawBuffer"
    using muLaw8ToPcm16_loop_ok [of "replicate (length muLawBuffer * 2) 0" muLawBuffer 0]
    by auto
  have "even (length pcm8)" using lp by simp
  from resample8To16_loop_ok [OF this, of "replicate (length pcm8 * 2) 0" 0]
  show ?thesis using p lp by (simp add: muLaw8ToPcm16_def resample8To16_def mult.commute)
qed

text \<open>
  C7. For every PCM16 input buffer (and every gain), \<open>pcm16ToMuLaw8\<close> returns, without
  throwing, a buffer of exactly the input length divided by 4, rounded down, bytes; for
  every mu-law buffer, \<open>muLaw8ToPcm16\<close> returns, without throwing, a buffer of exactly four
  times the input length bytes.
\<close>

theorem transcoder_output_lengths:
  "(\<exists>out. pcm16ToMuLaw8 pcmBuffer gain = Inr out \<and> length out = length pcmBuffer div 4)
   \<and> (\<exists>out. muLaw8ToPcm16 muLawBuffer = Inr out \<and> length out = length muLawBuffer * 4)"
  using pcm16ToMuLaw8_length muLaw8ToPcm16_length by blast


theorem transcoder_output_lengths_witness:
  "(\<exists>out. pcm16ToMuLaw8 [0xFF, 0x7F, 0xFF, 0x7F, 0x01] defaultGain = Inr out \<and> length out = 1)
   \<and> (\<exists>out. muLaw8ToPcm16 [0x86, 0xFF] = Inr out \<and> length out = 8)"
  using transcoder_output_lengths [of "[0xFF, 0x7F, 0xFF, 0x7F, 0x01]" defaultGain "[0x86, 0xFF]"]
  by simp


section \<open>The round trip through the two tables\<close>

lemma pcmToMuLawEntry_26213: "pcmToMuLawEntry 26213 = 0x86"
  by (simp add: pcmToMuLawEntry_def Let_def exponentLoop.simps js_and_def js_or_def js_not_def
      js_shl_def js_sar_def)

lemma muLawToPcmEntry_0x86: "muLawToPcmEntry 0x86 = 9728"
  by (simp add: muLawToPcmEntry_def Let_def toInt16_def js_and_def js_or_def js_not_def
      js_shl_def js_sar_def)

lemma floor_defaultGain: "\<lfloor>(of_int k / 2) * defaultGain\<rfloor> = (2 * k) div 5"
proof -
  have "(of_int k / 2) * defaultGain = (of_int (2 * k) / of_int 5 :: rat)"
    by (simp add: defaultGain_def)
  then show ?thesis by (simp only: floor_divide_of_int_eq)
qed

lemma floor_full_scale: "\<lfloor>32767 * defaultGain\<rfloor> = 26213"
  using floor_defaultGain [of 65534] by simp

lemma replicate_4: "replicate 4 x = [x, x, x, x]"
  by (simp add: eval_nat_numeral)

lemma encode_full_scale: "pcm16ToMuLaw8 [0xFF, 0x7F, 0xFF, 0x7F] defaultGain = Inr [0x86]"
  by (simp add: pcm16ToMuLaw8_def Let_def pcm16ToMuLaw8_loop.simps readInt16LE_def
      floor_full_scale pcmToMuLawTable_nth pcmToMuLawEntry_26213)

lemma decode_0x86: "muLaw8ToPcm16 [0x86] = Inr [0x00, 0x26, 0x00, 0x26]"
  by (simp add: muLaw8ToPcm16_def muLaw8ToPcm16_loop.simps muLawToPcmTable_nth
      muLawToPcmEntry_0x86 writeInt16LE_def resample8To16_def resample8To16_loop.simps
      readInt16LE_def Let_def replicate_4)

lemma muLawStep_26213: "muLawStep 26213 = 1024"
  by (simp add: muLawStep_def Let_def exponentLoop.simps js_and_def js_sar_def)

text \<open>
  C1, at a failing input. Two full-scale samples 32767 (bytes \<open>FF 7F FF 7F\<close>) are
  averaged and scaled by the default gain to the amplitude 26213, which the encode table
  maps to the byte \<open>0x86\<close> (segment 7, mantissa 9). The decode table maps \<open>0x86\<close> to
  9728, and both samples of the decoded buffer are 9728: the round trip is off by 16485,
  more than the quantization step 1024 at that amplitude. (The G.711 expansion of
  \<open>0x86\<close> is \<open>((9 * 8 + 132) * 2 ^ 7) - 132 = 25980\<close>.)
\<close>

theorem roundtrip_error_exceeds_step:
  "pcm16ToMuLaw8 [0xFF, 0x7F, 0xFF, 0x7F] defaultGain = Inr [0x86]
   \<and> \<lfloor>(of_int (32767 + 32767) / 2) * defaultGain\<rfloor> = 26213
   \<and> muLaw8ToPcm16 [0x86] = Inr [0x00, 0x26, 0x00, 0x26]
   \<and> readInt16LE [0x00, 0x26, 0x00, 0x26] 0 = Inr 9728
   \<and> readInt16LE [0x00, 0x26, 0x00, 0x26] 2 = Inr 9728
   \<and> muLawStep 26213 = 1024
   \<and> muLawStep 26213 < \<bar>26213 - 9728\<bar>"
  using encode_full_scale decode_0x86 floor_full_scale muLawStep_26213
  by (simp add: readInt16LE_def)


section \<open>The RTP bridge\<close>

lemma demoBridge_fields:
  "sendable demoBridge \<and> timestamp demoBridge = 0 \<and> sequenceNumber demoBridge = 0
   \<and> isRunning demoBridge \<and> packetCount demoBridge = 0 \<and> wire demoBridge = []
   \<and> audioBuffer demoBridge = [] \<and> remoteAddress demoBridge = Some ''10.0.0.2''
   \<and> remotePort demoBridge = Some 40000 \<and> pacerTimer demoBridge
   \<and> socket demoBridge = Running"
  by (simp add: demoBridge_def setRemoteDestination_def start_def startPacer_def tick_def
      newRTPBridge_def sendable_def Let_def)

text \<open>
  C9. A datagram shorter than 12 bytes, or one whose header byte 1 has a non-zero value in
  its low 7 bits, leaves the bridge as it is: no \<open>'audio'\<close> event is emitted and nothing
  is counted.
\<close>

theorem handleRTPPacket_drops:
  "length packet < 12 \<or> packet ! 1 AND 0x7F \<noteq> 0 \<Longrightarrow>
   handleRTPPacket packet b = (None, b)"
  by (auto simp add: handleRTPPacket_def Let_def js_and_low7 uint_0_iff)

theorem handleRTPPacket_drops_witness:
  "(length [0x80, 0x08, 0, 1, 0, 0, 0, 160, 0, 0, 0, 7, 0xFF :: byte] < 12
      \<or> [0x80, 0x08, 0, 1, 0, 0, 0, 160, 0, 0, 0, 7, 0xFF :: byte] ! 1 AND 0x7F \<noteq> 0)
   \<and> handleRTPPacket [0x80, 0x08, 0, 1, 0, 0, 0, 160, 0, 0, 0, 7, 0xFF] demoBridge
       = (None, demoBridge)
   \<and> handleRTPPacket [0x80, 0x00, 0, 1] demoBridge = (None, demoBridge)"
  using handleRTPPacket_drops [of "[0x80, 0x08, 0, 1, 0, 0, 0, 160, 0, 0, 0, 7, 0xFF]" demoBridge]
    handleRTPPacket_drops [of "[0x80, 0x00, 0, 1]" demoBridge]
  by simp

text \<open>The other datagrams are decoded and emitted: the receive path is not empty.\<close>

lemma handleRTPPacket_emits:
  assumes "12 \<le> length packet" and "packet ! 1 AND 0x7F = 0"
  shows "\<exists>pcm16. handleRTPPacket packet b
            = (None, b\<lparr>receiveCount := receiveCount b + 1,
                        audioEvents := audioEvents b @ [pcm16]\<rparr>)
          \<and> length pcm16 = (length packet - 12) * 4"
proof -
  obtain out where "muLaw8ToPcm16 (drop 12 packet) = Inr out"
      and "length out = length (drop 12 packet) * 4"
    using muLaw8ToPcm16_length [of "drop 12 packet"] by blast
  then show ?thesis
    using assms by (intro exI [of _ out]) (simp add: handleRTPPacket_def Let_def js_and_low7)
qed

text \<open>
  C10. While the bridge is not running, or while no remote address or no remote port has
  been set, \<open>sendAudio\<close> returns without throwing and leaves every field of the bridge,
  the send buffer included, as it was.
\<close>

theorem sendAudio_discards:
  "\<not> isRunning b \<or> remoteAddress b = None \<or> remotePort b = None \<Longrightarrow>
   sendAudio pcm16 b = (None, b)"
  by (auto simp add: sendAudio_def falsyString_def falsyNumber_def)

theorem sendAudio_discards_witness:
  "isRunning (snd (start 5004 (newRTPBridge 7)))
   \<and> remoteAddress (snd (start 5004 (newRTPBridge 7))) = None
   \<and> sendAudio [0xFF, 0x7F, 0xFF, 0x7F] (snd (start 5004 (newRTPBridge 7)))
       = (None, snd (start 5004 (newRTPBridge 7)))"
proof -
  have h: "remoteAddress (snd (start 5004 (newRTPBridge 7))) = None"
    and r: "isRunning (snd (start 5004 (newRTPBridge 7)))"
    by (simp_all add: start_def startPacer_def tick_def newRTPBridge_def Let_def)
  show ?thesis
    using h r
      sendAudio_discards [of "snd (start 5004 (newRTPBridge 7))" "[0xFF, 0x7F, 0xFF, 0x7F]"]
    by simp
qed

text \<open>Once running with a destination, \<open>sendAudio\<close> does queue the encoded audio.\<close>

lemma sendAudio_queues:
  assumes "isRunning b" "remoteAddress b = Some a" "a \<noteq> []" "remotePort b = Some p" "p \<noteq> 0"
  shows "\<exists>muLaw. sendAudio pcm16 b = (None, b\<lparr>audioBuffer := audioBuffer b @ muLaw\<rparr>)
           \<and> length muLaw = length pcm16 div 4"
proof -
  obtain out where "pcm16ToMuLaw8 pcm16 defaultGain = Inr out"
      and "length out = length pcm16 div 4"
    using pcm16ToMuLaw8_length [of pcm16 defaultGain] by blast
  then show ?thesis
    using assms by (intro exI [of _ out]) (simp add: sendAudio_def falsyString_def falsyNumber_def)
qed

text \<open>
  C6, as stated, fails: the second \<open>stop()\<close> on a bridge throws, since \<open>socket.close()\<close>
  is called again on the closed socket.
\<close>

theorem stop_twice_throws:
  "fst (stop demoBridge) = None
   \<and> fst (stop (snd (stop demoBridge))) = Some ERR_SOCKET_DGRAM_NOT_RUNNING"
  using demoBridge_fields by (simp add: stop_def socket_close_def Let_def)

text \<open>
  C6, amended. After a \<open>stop()\<close> that returned, the bridge is not running, has no pacer
  timer, a closed socket and an empty send buffer; a second \<open>stop()\<close> throws
  \<open>ERR_SOCKET_DGRAM_NOT_RUNNING\<close> and leaves the bridge in that same state.
\<close>

theorem stop_twice_state:
  "fst (stop b) = None \<Longrightarrow>
   stop (snd (stop b)) = (Some ERR_SOCKET_DGRAM_NOT_RUNNING, snd (stop b))
   \<and> \<not> isRunning (snd (stop b)) \<and> \<not> pacerTimer (snd (stop b))
   \<and> socket (snd (stop b)) = NotRunning \<and> audioBuffer (snd (stop b)) = []"
  by (cases "socket b"; cases "pacerTimer b") (simp_all add: stop_def socket_close_def Let_def)

theorem stop_twice_state_witness:
  "fst (stop (newRTPBridge 7)) = None
   \<and> stop (snd (stop (newRTPBridge 7)))
       = (Some ERR_SOCKET_DGRAM_NOT_RUNNING, snd (stop (newRTPBridge 7)))
   \<and> socket (snd (stop (newRTPBridge 7))) = NotRunning"
proof -
  have h: "fst (stop (newRTPBridge 7)) = None"
    by (simp add: stop_def socket_close_def newRTPBridge_def Let_def)
  show ?thesis using h stop_twice_state [OF h] by simp
qed


subsection \<open>Sending packets\<close>

lemma replicate_12_add:
  "replicate (12 + n) (x::byte) = [x, x, x, x, x, x, x, x, x, x, x, x] @ replicate n x"
  by (simp add: replicate_add eval_nat_numeral)

lemma sendRTPPacket_ok:
  assumes "sendable b"
  shows "sendRTPPacket payload b =
     (None, b\<lparr>wire := wire b @ [(remoteAddress b, the (remotePort b), rtpHeader b @ payload)],
              sequenceNumber := js_and (sequenceNumber b + 1) 0xFFFF,
              timestamp := js_and (timestamp b + int (length payload)) 0xFFFFFFFF\<rparr>)"
proof -
  obtain port where p: "remotePort b = Some port" "1 \<le> port" "port \<le> 65535"
    using assms by (auto simp add: sendable_def split: option.splits)
  have s: "socket b = Running" using assms by (simp add: sendable_def)
  have r: "0 \<le> sequenceNumber b" "sequenceNumber b \<le> 65535" "0 \<le> timestamp b"
    "timestamp b \<le> 4294967295" "0 \<le> ssrc b" "ssrc b \<le> 4294967295"
    using assms by (simp_all add: sendable_def)
  show ?thesis
    using p s r
    by (simp add: sendRTPPacket_def Let_def replicate_12_add writeUInt16BE_def
        writeUInt32BE_def socket_send_def rtpHeader_def)
qed

lemma sendRTPPacket_negative_timestamp:
  "0 \<le> sequenceNumber b \<Longrightarrow> sequenceNumber b \<le> 65535 \<Longrightarrow> timestamp b < 0 \<Longrightarrow>
   sendRTPPacket payload b = (Some ERR_OUT_OF_RANGE, b)"
  by (simp add: sendRTPPacket_def Let_def writeUInt16BE_def writeUInt32BE_def)

text \<open>
  The sequence number does advance by 1 modulo 65536 with every packet sent, and the
  timestamp by the payload length as long as the sum stays below \<open>2 ^ 31\<close>.
\<close>

lemma sendRTPPacket_sequenceNumber:
  assumes "sendable b"
  shows "sequenceNumber (snd (sendRTPPacket payload b)) = (sequenceNumber b + 1) mod 65536"
proof -
  have "0 \<le> sequenceNumber b + 1" "sequenceNumber b + 1 < 2147483648"
    using assms by (simp_all add: sendable_def)
  then have "js_and (sequenceNumber b + 1) 0xFFFF = (sequenceNumber b + 1) mod 65536"
    by (rule js_and_u16)
  then show ?thesis by (simp add: sendRTPPacket_ok [OF assms])
qed

lemma sendRTPPacket_timestamp_low:
  assumes "sendable b" and "timestamp b + int (length payload) < 2147483648"
  shows "timestamp (snd (sendRTPPacket payload b)) = timestamp b + int (length payload)"
proof -
  have "- 2147483648 \<le> timestamp b + int (length payload)"
    using assms(1) by (simp add: sendable_def)
  then have "js_and (timestamp b + int (length payload)) 0xFFFFFFFF
      = timestamp b + int (length payload)"
    using assms(2) by (rule js_and_int32)
  then show ?thesis by (simp add: sendRTPPacket_ok [OF assms(1)])
qed

lemma sendPackets_low_half:
  assumes "sendable b" "timestamp b = 0" "sequenceNumber b = 0"
  shows "n \<le> 13421772 \<Longrightarrow>
     sendable (sendPackets n b) \<and> timestamp (sendPackets n b) = 160 * int n
     \<and> sequenceNumber (sendPackets n b) = int n mod 65536
     \<and> length (wire (sendPackets n b)) = length (wire b) + n"
proof (induction n)
  case 0
  then show ?case using assms by simp
next
  case (Suc n)
  then have ih: "sendable (sendPackets n b)" "timestamp (sendPackets n b) = 160 * int n"
    "sequenceNumber (sendPackets n b) = int n mod 65536"
    "length (wire (sendPackets n b)) = length (wire b) + n"
    by simp_all
  have n: "int n < 13421772" using Suc.prems by simp
  have t: "js_and (160 * int n + 160) 0xFFFFFFFF = 160 * int n + 160"
    using n by (intro js_and_int32) simp_all
  have "0 \<le> int n mod 65536" "int n mod 65536 < 65536" by simp_all
  then have s: "js_and (int n mod 65536 + 1) 0xFFFF = (int n mod 65536 + 1) mod 65536"
    by (intro js_and_u16) simp_all
  have s': "(int n mod 65536 + 1) mod 65536 = (int n + 1) mod 65536"
    by (simp add: mod_simps)
  show ?case
    using ih n t s s'
    by (simp add: sendRTPPacket_ok [OF ih(1)] sendable_def algebra_simps)
qed

lemma sendPackets_next:
  "sendPackets 13421773 b = snd (sendRTPPacket (replicate 160 0xFF) (sendPackets 13421772 b))"
proof -
  have "(13421773::nat) = Suc 13421772" by simp
  then show ?thesis by (simp only: sendPackets.simps)
qed

text \<open>
  C4, at a failing input. A started bridge sends 160-byte packets from timestamp 0. After
  13421772 packets the timestamp is 2147483520. Packet 13421773 still goes out, and the
  update \<open>(timestamp + 160) & 0xFFFFFFFF\<close> then leaves the signed value -2147483616 in
  the field, not 2147483680; \<open>writeUInt32BE\<close> rejects it, so the next
  \<open>sendRTPPacket\<close> throws and no further packet carries a timestamp.
\<close>

theorem timestamp_wraps_negative:
  "timestamp (sendPackets 13421772 demoBridge) = 2147483520
   \<and> length (wire (sendPackets 13421773 demoBridge)) = 13421773
   \<and> timestamp (sendPackets 13421773 demoBridge) = - 2147483616
   \<and> sendRTPPacket (replicate 160 0xFF) (sendPackets 13421773 demoBridge)
       = (Some ERR_OUT_OF_RANGE, sendPackets 13421773 demoBridge)"
proof -
  let ?b = "sendPackets 13421772 demoBridge"
  have d: "sendable demoBridge" "timestamp demoBridge = 0" "sequenceNumber demoBridge = 0"
    "wire demoBridge = []"
    using demoBridge_fields by simp_all
  have f: "sendable ?b" "timestamp ?b = 2147483520" "sequenceNumber ?b = 52428"
    "length (wire ?b) = 13421772"
    using sendPackets_low_half [OF d(1) d(2) d(3), of 13421772] d(4) by simp_all
  have t: "js_and (2147483520 + 160) 0xFFFFFFFF = - 2147483616"
    by (simp add: js_and_def)
  have s: "js_and (52428 + 1) 0xFFFF = 52429"
    by (simp add: js_and_def)
  have n: "sendPackets 13421773 demoBridge
      = ?b\<lparr>wire := wire ?b @ [(remoteAddress ?b, the (remotePort ?b),
                                   rtpHeader ?b @ replicate 160 0xFF)],
             sequenceNumber := 52429, timestamp := - 2147483616\<rparr>"
    using t s f(2) f(3) by (simp add: sendPackets_next sendRTPPacket_ok [OF f(1)])
  have e: "sendRTPPacket (replicate 160 0xFF) (sendPackets 13421773 demoBridge)
      = (Some ERR_OUT_OF_RANGE, sendPackets 13421773 demoBridge)"
    by (rule sendRTPPacket_negative_timestamp) (simp_all add: n)
  show ?thesis using f(2) f(4) e by (simp add: n)
qed

subsection \<open>The pacer\<close>

lemma tick_guard:
  "isRunning b \<Longrightarrow> packetCount b = 0 \<Longrightarrow> length (audioBuffer b) < 480 \<Longrightarrow>
   tick b = (None, b\<lparr>pacerTimer := True\<rparr>)"
  by (simp add: tick_def)

lemma tick_send:
  assumes "isRunning b" "sendable b" "packetCount b \<noteq> 0 \<or> 480 \<le> length (audioBuffer b)"
    "160 \<le> length (audioBuffer b)"
  shows "tick b =
     (None, b\<lparr>audioBuffer := drop 160 (audioBuffer b),
              wire := wire b @ [(remoteAddress b, the (remotePort b),
                                 rtpHeader b @ take 160 (audioBuffer b))],
              sequenceNumber := js_and (sequenceNumber b + 1) 0xFFFF,
              timestamp := js_and (timestamp b + 160) 0xFFFFFFFF,
              pacerTimer := True\<rparr>)"
proof -
  let ?b = "b\<lparr>audioBuffer := drop 160 (audioBuffer b)\<rparr>"
  have sb: "sendable ?b" using assms(2) by (simp add: sendable_def)
  have g: "(packetCount b = 0 \<and> length (audioBuffer b) < 480) = False"
    using assms(3) by auto
  have l: "int (length (take 160 (audioBuffer b))) = 160" using assms(4) by simp
  show ?thesis
    using assms(1) assms(4) l
    by (simp add: tick_def Let_def g sendRTPPacket_ok [OF sb] rtpHeader_def del: length_take)
qed

text \<open>
  C5, as stated, fails. \<open>start\<close> runs the first tick; the destination is then set and 800
  bytes of PCM are pushed, which queues 200 bytes. The next tick finds 200 bytes, at least
  160, and still sends nothing.
\<close>

theorem second_tick_still_guarded:
  "pacerTimer demoBridge
   \<and> length (audioBuffer (snd (sendAudio (replicate 800 0) demoBridge))) = 200
   \<and> wire (snd (tick (snd (sendAudio (replicate 800 0) demoBridge)))) = []"
proof -
  obtain out where o: "pcm16ToMuLaw8 (replicate 800 0) defaultGain = Inr out"
    and l: "length out = 200"
    using pcm16ToMuLaw8_length [of "replicate 800 0" defaultGain] by auto
  have d: "isRunning demoBridge" "packetCount demoBridge = 0" "wire demoBridge = []"
    "audioBuffer demoBridge = []" "remoteAddress demoBridge = Some ''10.0.0.2''"
    "remotePort demoBridge = Some 40000" "pacerTimer demoBridge"
    using demoBridge_fields by simp_all
  have s: "snd (sendAudio (replicate 800 0) demoBridge) = demoBridge\<lparr>audioBuffer := out\<rparr>"
    using d o by (simp add: sendAudio_def falsyString_def falsyNumber_def)
  show ?thesis
    using d l by (simp add: s tick_def Let_def)
qed

text \<open>
  C5, amended. On every tick of a running bridge that can send: as long as \<open>packetCount\<close>
  is 0 (no send has been confirmed yet) and fewer than 480 bytes are buffered, no packet is
  sent and the buffer is kept; otherwise, when at least 160 bytes are buffered, exactly one
  packet with the first 160 bytes is sent and those bytes leave the buffer; otherwise
  nothing is sent.
\<close>

theorem startup_guard_until_first_packet:
  assumes "isRunning b" and "sendable b"
  shows "(if packetCount b = 0 \<and> length (audioBuffer b) < 480
          then fst (tick b) = None \<and> wire (snd (tick b)) = wire b
               \<and> audioBuffer (snd (tick b)) = audioBuffer b
          else if 160 \<le> length (audioBuffer b)
          then fst (tick b) = None
               \<and> (\<exists>dest port. wire (snd (tick b))
                     = wire b @ [(dest, port, rtpHeader b @ take 160 (audioBuffer b))])
               \<and> audioBuffer (snd (tick b)) = drop 160 (audioBuffer b)
          else fst (tick b) = None \<and> wire (snd (tick b)) = wire b
               \<and> audioBuffer (snd (tick b)) = audioBuffer b)"
proof (cases "packetCount b = 0 \<and> length (audioBuffer b) < 480")
  case True
  then show ?thesis using tick_guard [OF assms(1)] by simp
next
  case False
  note g = this
  show ?thesis
  proof (cases "160 \<le> length (audioBuffer b)")
    case True
    have "packetCount b \<noteq> 0 \<or> 480 \<le> length (audioBuffer b)" using g by auto
    from tick_send [OF assms this True] show ?thesis using g True by simp
  next
    case False
    then show ?thesis using g assms(1) by (auto simp add: tick_def Let_def)
  qed
qed

theorem startup_guard_until_first_packet_witness:
  "isRunning (sendCallback False (demoBridge\<lparr>audioBuffer := replicate 200 0xFF\<rparr>))
   \<and> sendable (sendCallback False (demoBridge\<lparr>audioBuffer := replicate 200 0xFF\<rparr>))
   \<and> length (wire (snd (tick (sendCallback False
         (demoBridge\<lparr>audioBuffer := replicate 200 0xFF\<rparr>))))) = 1
   \<and> length (audioBuffer (snd (tick (sendCallback False
         (demoBridge\<lparr>audioBuffer := replicate 200 0xFF\<rparr>))))) = 40"
proof -
  let ?b = "sendCallback False (demoBridge\<lparr>audioBuffer := replicate 200 0xFF\<rparr>)"
  have r: "isRunning ?b" and s: "sendable ?b" and c: "packetCount ?b = 1"
    and l: "audioBuffer ?b = replicate 200 0xFF" and w: "wire ?b = []"
    using demoBridge_fields by (simp_all add: sendCallback_def sendable_def)
  show ?thesis
    using startup_guard_until_first_packet [OF r s] r s c l w by auto
qed


section \<open>The SIP client\<close>

subsection \<open>Authentication challenges\<close>

text \<open>
  A 401 or 407 for a call that has used its three attempts, or whose CSeq does not exceed
  a non-zero \<open>lastAuthCSeq\<close>, is acknowledged and nothing else happens.
\<close>

lemma challenge_not_answered:
  assumes sc: "statusCodeMatch r = Some 401 \<or> statusCodeMatch r = Some 407"
    and ac: "activeCalls c callId = Some cl"
    and ex: "3 \<le> authAttempts cl
             \<or> (\<exists>l. lastAuthCSeq cl = Some l \<and> 0 < l
                    \<and> (case cseqMatch r of Some n \<Rightarrow> n | None \<Rightarrow> 0) \<le> l)"
  shows "handleSIPResponse env r callId number c = sendACK callId r c"
  using sc ac ex
  by (auto simp add: handleSIPResponse_def Let_def falsyCSeq_def split: option.splits)

lemma sendACK_fields:
  "events (sendACK callId r c) = events c \<and> activeCalls (sendACK callId r c) = activeCalls c
   \<and> pendingTeardown (sendACK callId r c) = pendingTeardown c
   \<and> callSequence (sendACK callId r c) = callSequence c
   \<and> bridges (sendACK callId r c) = bridges c"
  by (simp add: sendACK_def split: option.splits)

lemma sendACK_sent:
  "activeCalls c callId = Some cl \<Longrightarrow>
   sent (sendACK callId r c)
     = sent c @ (if call_socket cl then [ACK (cseq cl) (toTagMatch r)] else [])"
  by (simp add: sendACK_def)

text \<open>
  What a terminal failure looks like in this client: a 486 emits \<open>failed\<close>, ends the call
  and schedules the teardown of its bridge.
\<close>

lemma rejection_fails_call:
  "events (handleSIPResponse demoEnv (demoChallenge 486 (Some 4)) ''call-1'' ''15551234567''
      (demoClient (newCall ''15551234567'' 4 ''tag'' 0)))
     = [EvFailed ''call-1'' 486, EvEnded ''call-1'']
   \<and> length (pendingTeardown
        (handleSIPResponse demoEnv (demoChallenge 486 (Some 4)) ''call-1'' ''15551234567''
          (demoClient (newCall ''15551234567'' 4 ''tag'' 0)))) = 1
   \<and> activeCalls
        (handleSIPResponse demoEnv (demoChallenge 486 (Some 4)) ''call-1'' ''15551234567''
          (demoClient (newCall ''15551234567'' 4 ''tag'' 0))) ''call-1'' = None"
  by (simp add: handleSIPResponse_def demoChallenge_def demoClient_def newCall_def endCall_def
      Let_def)

text \<open>
  C2, as stated, fails. A call has answered three challenges, the last for CSeq 3; a
  further 401 for CSeq 4 emits no event at all (so no \<open>failed\<close>), schedules no teardown of
  the bridge and leaves the call among the active calls.
\<close>

theorem exhausted_challenge_not_failed:
  "events (handleSIPResponse demoEnv (demoChallenge 401 (Some 4)) ''call-1'' ''15551234567''
      (demoClient ((newCall ''15551234567'' 4 ''tag'' 0)
                     \<lparr>authAttempts := 3, lastAuthCSeq := Some 3\<rparr>))) = []
   \<and> pendingTeardown
       (handleSIPResponse demoEnv (demoChallenge 401 (Some 4)) ''call-1'' ''15551234567''
         (demoClient ((newCall ''15551234567'' 4 ''tag'' 0)
                        \<lparr>authAttempts := 3, lastAuthCSeq := Some 3\<rparr>))) = []
   \<and> activeCalls
       (handleSIPResponse demoEnv (demoChallenge 401 (Some 4)) ''call-1'' ''15551234567''
         (demoClient ((newCall ''15551234567'' 4 ''tag'' 0)
                        \<lparr>authAttempts := 3, lastAuthCSeq := Some 3\<rparr>))) ''call-1'' \<noteq> None"
  by (simp add: handleSIPResponse_def demoChallenge_def demoClient_def newCall_def sendACK_def
      Let_def falsyCSeq_def)

text \<open>
  C2, amended. When a 401 or 407 arrives for an active call whose \<open>authAttempts\<close> has
  reached 3, or whose non-zero \<open>lastAuthCSeq\<close> is not exceeded by the CSeq of the response,
  the response is acknowledged and otherwise ignored: no event is emitted, no teardown is
  scheduled, the call stays active and unchanged, and the only request sent is the ACK.
\<close>

theorem exhausted_challenge_ignored:
  assumes "statusCodeMatch r = Some 401 \<or> statusCodeMatch r = Some 407"
    and "activeCalls c callId = Some cl"
    and "3 \<le> authAttempts cl
         \<or> (\<exists>l. lastAuthCSeq cl = Some l \<and> 0 < l
                \<and> (case cseqMatch r of Some n \<Rightarrow> n | None \<Rightarrow> 0) \<le> l)"
  shows "events (handleSIPResponse env r callId number c) = events c
     \<and> pendingTeardown (handleSIPResponse env r callId number c) = pendingTeardown c
     \<and> activeCalls (handleSIPResponse env r callId number c) = activeCalls c
     \<and> callSequence (handleSIPResponse env r callId number c) = callSequence c
     \<and> bridges (handleSIPResponse env r callId number c) = bridges c
     \<and> sent (handleSIPResponse env r callId number c)
         = sent c @ (if call_socket cl then [ACK (cseq cl) (toTagMatch r)] else [])"
  using challenge_not_answered [OF assms] sendACK_fields [of callId r c]
    sendACK_sent [OF assms(2), of r]
  by simp

theorem exhausted_challenge_ignored_witness:
  "events (handleSIPResponse demoEnv (demoChallenge 401 (Some 4)) ''call-1'' ''15551234567''
      (demoClient ((newCall ''15551234567'' 4 ''tag'' 0)\<lparr>authAttempts := 3\<rparr>))) = []
   \<and> sent (handleSIPResponse demoEnv (demoChallenge 401 (Some 4)) ''call-1'' ''15551234567''
      (demoClient ((newCall ''15551234567'' 4 ''tag'' 0)\<lparr>authAttempts := 3\<rparr>)))
       = [ACK 4 None]"
  using exhausted_challenge_ignored [of "demoChallenge 401 (Some 4)"
      "demoClient ((newCall ''15551234567'' 4 ''tag'' 0)\<lparr>authAttempts := 3\<rparr>)" "''call-1''"
      "(newCall ''15551234567'' 4 ''tag'' 0)\<lparr>authAttempts := 3\<rparr>" demoEnv "''15551234567''"]
  by (simp add: demoChallenge_def demoClient_def newCall_def)

text \<open>
  C3, at a failing input. A 401 with a digest challenge and no \<open>CSeq\<close> header (the code
  then takes the CSeq to be 0) reaches a fresh call twice. The first is answered with an
  authenticated INVITE and leaves \<open>lastAuthCSeq = 0\<close>. The second has CSeq 0, which is not
  greater than \<open>lastAuthCSeq\<close>, and is answered with another authenticated INVITE, because
  \<open>!call.lastAuthCSeq\<close> holds for 0.
\<close>

theorem zero_cseq_challenge_resent:
  "sent (handleSIPResponse env (demoChallenge 401 None) ''call-1'' ''15551234567''
           (demoClient (newCall ''15551234567'' 1 ''tag'' 0)))
     = [ACK 1 None,
        INVITE 2 (Some (snd (digestResponse env ''15551234567''
            \<lparr> p_realm = Some ''example.com'', p_nonce = Some ''abc123'', p_qop = None \<rparr>)))]
   \<and> map_option lastAuthCSeq
        (activeCalls (handleSIPResponse env (demoChallenge 401 None) ''call-1'' ''15551234567''
           (demoClient (newCall ''15551234567'' 1 ''tag'' 0))) ''call-1'') = Some (Some 0)
   \<and> sent (handleSIPResponse env (demoChallenge 401 None) ''call-1'' ''15551234567''
        (handleSIPResponse env (demoChallenge 401 None) ''call-1'' ''15551234567''
           (demoClient (newCall ''15551234567'' 1 ''tag'' 0))))
     = [ACK 1 None,
        INVITE 2 (Some (snd (digestResponse env ''15551234567''
            \<lparr> p_realm = Some ''example.com'', p_nonce = Some ''abc123'', p_qop = None \<rparr>))),
        ACK 2 None,
        INVITE 3 (Some (snd (digestResponse env ''15551234567''
            \<lparr> p_realm = Some ''example.com'', p_nonce = Some ''abc123'', p_qop = None \<rparr>)))]"
  by (simp add: handleSIPResponse_def handleAuthentication_def demoChallenge_def demoClient_def
      newCall_def sendACK_def Let_def falsyCSeq_def)

subsection \<open>The digest\<close>

text \<open>
  C8. The response hash computed for a challenge is the spec's digest for the configured
  user name and password, the realm and nonce of the challenge (the configured domain and
  the empty string where the challenge has none), the request URI
  \<open>sip:<number>@<domain>\<close>, and the generated client nonce: the \<open>qop=auth\<close> form when the
  challenge says \<open>qop=auth\<close>, the plain form otherwise. For the test vector of the spec it
  is \<open>MD5(MD5(alice:example.com:secret):abc123:MD5(INVITE:sip:bob@example.com))\<close>, whatever
  the function \<open>MD5\<close>.
\<close>

theorem digest_response_rfc2617:
  "fst (digestResponse env number params)
     = rfc2617_response (md5 env) (sip_username (config env))
         (case p_realm params of None \<Rightarrow> sip_domain (config env)
          | Some r \<Rightarrow> if r = [] then sip_domain (config env) else r)
         (sip_password (config env))
         (case p_nonce params of None \<Rightarrow> [] | Some n \<Rightarrow> n)
         (''sip:'' @ number @ ''@'' @ sip_domain (config env))
         (p_qop params = Some ''auth'') (randomHex env)
   \<and> fst (digestResponse
             \<lparr> config = \<lparr> sip_username = ''alice'', sip_password = ''secret'',
                           sip_domain = ''example.com'' \<rparr>,
               md5 = MD5, randomHex = cn \<rparr>
             ''bob''
             \<lparr> p_realm = Some ''example.com'', p_nonce = Some ''abc123'', p_qop = None \<rparr>)
       = MD5 (MD5 ''alice:example.com:secret'' @ '':abc123:'' @ MD5 ''INVITE:sip:bob@example.com'')"
  by (simp add: digestResponse_def rfc2617_response_def Let_def)

theorem digest_response_rfc2617_witness:
  "fst (digestResponse demoEnv ''bob''
          \<lparr> p_realm = Some ''example.com'', p_nonce = Some ''abc123'', p_qop = Some ''auth'' \<rparr>)
     = rfc2617_response id ''alice'' ''example.com'' ''secret'' ''abc123''
         ''sip:bob@example.com'' True ''0123456789abcdef''"
  using digest_response_rfc2617 [of demoEnv "''bob''"
      "\<lparr> p_realm = Some ''example.com'', p_nonce = Some ''abc123'', p_qop = Some ''auth'' \<rparr>"]
  by (simp add: demoEnv_def)

end
